theory Spec2Isabelle
  imports Complex_Main
begin

section \<open>The editing session (src/app/page.tsx)\<close>

text \<open>
  The page component keeps four image references, each a data URL or \<open>null\<close>, and four
  flags that say which stage is open. A reference of type \<open>string | null\<close> is a
  \<open>string option\<close>.
\<close>

record session =
  uploadedImage :: "string option"
  croppedImage :: "string option"
  filteredImage :: "string option"
  editedImage :: "string option"
  zoom :: int
  rotation :: int
  showCropper :: bool
  showFilters :: bool
  showEditor :: bool
  showDownload :: bool

text \<open>
  JavaScript's \<open>a || b\<close> on \<open>string | null\<close>: the left operand when it is truthy (a
  non-empty string), the right operand otherwise, whatever it is.
\<close>

definition truthy :: "string option \<Rightarrow> bool" where
  "truthy a = (case a of None \<Rightarrow> False | Some v \<Rightarrow> v \<noteq> [])"

definition js_or :: "string option \<Rightarrow> string option \<Rightarrow> string option" where
  "js_or a b = (if truthy a then a else b)"

text \<open>\<open>const currentImage = editedImage || filteredImage || croppedImage || uploadedImage\<close>\<close>

definition currentImage :: "session \<Rightarrow> string option" where
  "currentImage s =
     js_or (js_or (js_or (editedImage s) (filteredImage s)) (croppedImage s)) (uploadedImage s)"

text \<open>The \<open>imageSrc\<close> property handed to each stage component (lines 193, 199, 205, 210).\<close>

definition cropperSrc :: "session \<Rightarrow> string option" where
  "cropperSrc s =
     js_or (js_or (js_or (editedImage s) (filteredImage s)) (croppedImage s)) (uploadedImage s)"

definition filtersSrc :: "session \<Rightarrow> string option" where
  "filtersSrc s = js_or (js_or (editedImage s) (croppedImage s)) (uploadedImage s)"

definition editorSrc :: "session \<Rightarrow> string option" where
  "editorSrc s = js_or (js_or (filteredImage s) (croppedImage s)) (uploadedImage s)"

text \<open>
  What the page renders: the chain of conditional expressions of the returned JSX, in the
  source's order. Each stage view carries the \<open>imageSrc\<close> it is given.
\<close>

datatype view =
    UploadView
  | CropperView "string option"
  | FiltersView "string option"
  | EditorView "string option"
  | DownloadView "string option"
  | PreviewView "string option"

definition render :: "session \<Rightarrow> view" where
  "render s =
     (if \<not> truthy (uploadedImage s) then UploadView
      else if showCropper s then CropperView (cropperSrc s)
      else if showFilters s then FiltersView (filtersSrc s)
      else if showEditor s then EditorView (editorSrc s)
      else if showDownload s then DownloadView (currentImage s)
      else PreviewView (currentImage s))"

definition handleCropComplete :: "string \<Rightarrow> session \<Rightarrow> session" where
  "handleCropComplete croppedImageSrc s =
     s\<lparr>croppedImage := Some croppedImageSrc,
       filteredImage := None,
       editedImage := None,
       showCropper := False,
       zoom := 100,
       rotation := 0\<rparr>"


definition handleEditComplete :: "string \<Rightarrow> session \<Rightarrow> session" where
  "handleEditComplete editedImageSrc s =
     s\<lparr>editedImage := Some editedImageSrc,
       showEditor := False,
       zoom := 100,
       rotation := 0\<rparr>"

definition startCropping :: "session \<Rightarrow> session" where
  "startCropping s = s\<lparr>showCropper := True\<rparr>"



text \<open>A session in which a filter has been applied and the cropper is open.\<close>

definition session0 :: session where
  "session0 =
     \<lparr>uploadedImage = Some ''data:upload'', croppedImage = None,
      filteredImage = Some ''data:filtered'', editedImage = None,
      zoom = 100, rotation = 0,
      showCropper = True, showFilters = False, showEditor = False, showDownload = False\<rparr>"




section \<open>JavaScript numbers\<close>

text \<open>
  A JavaScript number is a finite value, an infinity or NaN. Finite arithmetic is taken as
  exact (a real), the special values follow IEEE 754 as JavaScript does; the sign of a
  zero is not tracked, a zero divisor counts as \<open>+0\<close>. Division is written out because
  HOL's \<open>x / 0\<close> is \<open>0\<close>, which is not what the program computes.
\<close>

datatype jsnum = Num real | Inf bool | NaN

fun js_add :: "jsnum \<Rightarrow> jsnum \<Rightarrow> jsnum" where
  "js_add (Num a) (Num b) = Num (a + b)"
| "js_add (Num a) (Inf q) = Inf q"
| "js_add (Inf p) (Num b) = Inf p"
| "js_add (Inf p) (Inf q) = (if p = q then Inf p else NaN)"
| "js_add NaN b = NaN"
| "js_add a NaN = NaN"

fun js_sub :: "jsnum \<Rightarrow> jsnum \<Rightarrow> jsnum" where
  "js_sub (Num a) (Num b) = Num (a - b)"
| "js_sub (Num a) (Inf q) = Inf (\<not> q)"
| "js_sub (Inf p) (Num b) = Inf p"
| "js_sub (Inf p) (Inf q) = (if p = q then NaN else Inf p)"
| "js_sub NaN b = NaN"
| "js_sub a NaN = NaN"

fun js_mul :: "jsnum \<Rightarrow> jsnum \<Rightarrow> jsnum" where
  "js_mul (Num a) (Num b) = Num (a * b)"
| "js_mul (Num a) (Inf q) = (if a = 0 then NaN else Inf (q = (0 < a)))"
| "js_mul (Inf p) (Num b) = (if b = 0 then NaN else Inf (p = (0 < b)))"
| "js_mul (Inf p) (Inf q) = Inf (p = q)"
| "js_mul NaN b = NaN"
| "js_mul a NaN = NaN"

fun js_div :: "jsnum \<Rightarrow> jsnum \<Rightarrow> jsnum" where
  "js_div (Num a) (Num b) =
     (if b = 0 then (if a = 0 then NaN else Inf (0 < a)) else Num (a / b))"
| "js_div (Num a) (Inf q) = Num 0"
| "js_div (Inf p) (Num b) = Inf (p = (0 \<le> b))"
| "js_div (Inf p) (Inf q) = NaN"
| "js_div NaN b = NaN"
| "js_div a NaN = NaN"

text \<open>\<open>Math.sqrt\<close>, \<open>Math.cos\<close>, \<open>Math.sin\<close> and \<open>Math.atan2\<close>.\<close>

fun js_sqrt :: "jsnum \<Rightarrow> jsnum" where
  "js_sqrt (Num a) = (if a < 0 then NaN else Num (sqrt a))"
| "js_sqrt (Inf p) = (if p then Inf True else NaN)"
| "js_sqrt NaN = NaN"

fun js_cos :: "jsnum \<Rightarrow> jsnum" where
  "js_cos (Num a) = Num (cos a)"
| "js_cos a = NaN"

fun js_sin :: "jsnum \<Rightarrow> jsnum" where
  "js_sin (Num a) = Num (sin a)"
| "js_sin a = NaN"

definition atan2 :: "real \<Rightarrow> real \<Rightarrow> real" where
  "atan2 y x =
     (if 0 < x then arctan (y / x)
      else if x < 0 then (if 0 \<le> y then arctan (y / x) + pi else arctan (y / x) - pi)
      else if 0 < y then pi / 2
      else if y < 0 then - (pi / 2)
      else 0)"

fun js_atan2 :: "jsnum \<Rightarrow> jsnum \<Rightarrow> jsnum" where
  "js_atan2 (Num y) (Num x) = Num (atan2 y x)"
| "js_atan2 (Num y) (Inf q) = (if q then Num 0 else Num (if 0 \<le> y then pi else - pi))"
| "js_atan2 (Inf p) (Num x) = Num (if p then pi / 2 else - (pi / 2))"
| "js_atan2 (Inf p) (Inf q) =
     Num ((if p then 1 else - 1) * (if q then pi / 4 else 3 * pi / 4))"
| "js_atan2 NaN x = NaN"
| "js_atan2 y NaN = NaN"

text \<open>\<open>a > b\<close> on numbers: false as soon as one side is NaN.\<close>

fun js_gt :: "jsnum \<Rightarrow> jsnum \<Rightarrow> bool" where
  "js_gt (Num a) (Num b) = (b < a)"
| "js_gt (Num a) (Inf q) = (\<not> q)"
| "js_gt (Inf p) (Num b) = p"
| "js_gt (Inf p) (Inf q) = (p \<and> \<not> q)"
| "js_gt NaN b = False"
| "js_gt a NaN = False"

subsection \<open>Rounding to a double\<close>

text \<open>
  Where a computed number is afterwards rounded to an integer (the export dialog), the
  rounding of the double arithmetic shows in the result, and each arithmetic result is
  rounded to the nearest binary64 value, ties to even: \<open>binade a\<close> is the exponent \<open>e\<close>
  with \<open>2^e \<le> a < 2^(e+1)\<close>, the spacing of doubles there is \<open>2^(e-52)\<close> and never less
  than \<open>2^-1074\<close>, and a rounded magnitude of \<open>2^1024\<close> or more is an infinity.
\<close>

function binade :: "real \<Rightarrow> int" where
  "binade a =
     (if a \<le> 0 then 0
      else if 2 \<le> a then binade (a / 2) + 1
      else if a < 1 then binade (a * 2) - 1
      else 0)"
  by pat_completeness auto
termination
proof (relation "measure (\<lambda>a. if 1 \<le> a then nat \<lfloor>a\<rfloor> else nat \<lceil>1 / a\<rceil>)")
  show "wf (measure (\<lambda>a::real. if 1 \<le> a then nat \<lfloor>a\<rfloor> else nat \<lceil>1 / a\<rceil>))"
    by simp
next
  fix a :: real
  assume "\<not> a \<le> 0" and a2: "2 \<le> a"
  have "\<lfloor>a / 2\<rfloor> \<le> \<lfloor>a - 1\<rfloor>"
    using a2 by (intro floor_mono) simp
  then have "\<lfloor>a / 2\<rfloor> < \<lfloor>a\<rfloor>" by simp
  moreover have "0 < \<lfloor>a\<rfloor>" using a2 by simp
  ultimately show "(a / 2, a) \<in> measure (\<lambda>a. if 1 \<le> a then nat \<lfloor>a\<rfloor> else nat \<lceil>1 / a\<rceil>)"
    using a2 by simp
next
  fix a :: real
  assume pos: "\<not> a \<le> 0" and "\<not> 2 \<le> a" and lt1: "a < 1"
  have big: "1 < 1 / a" using pos lt1 by simp
  then have c2: "2 \<le> \<lceil>1 / a\<rceil>" by linarith
  show "(a * 2, a) \<in> measure (\<lambda>a. if 1 \<le> a then nat \<lfloor>a\<rfloor> else nat \<lceil>1 / a\<rceil>)"
  proof (cases "1 \<le> a * 2")
    case True
    have "\<lfloor>a * 2\<rfloor> = 1" using True lt1 by linarith
    then show ?thesis using True lt1 c2 by simp
  next
    case False
    then have "2 < 1 / a" using pos by (simp add: field_simps)
    have "1 / (a * 2) = (1 / a) / 2" by simp
    also have "\<dots> \<le> 1 / a - 1" using \<open>2 < 1 / a\<close> by simp
    finally have "\<lceil>1 / (a * 2)\<rceil> \<le> \<lceil>1 / a - 1\<rceil>" by (rule ceiling_mono)
    then have "\<lceil>1 / (a * 2)\<rceil> < \<lceil>1 / a\<rceil>" by simp
    then show ?thesis using False lt1 c2 pos by simp
  qed
qed

declare binade.simps [simp del]

definition pow2 :: "int \<Rightarrow> real" where
  "pow2 k = (if 0 \<le> k then 2 ^ nat k else 1 / 2 ^ nat (- k))"

text \<open>The nearest integer, a tie going to the even one.\<close>

definition rne :: "real \<Rightarrow> int" where
  "rne q =
     (let f = \<lfloor>q\<rfloor>; d = q - real_of_int f
      in if d < 1 / 2 then f
         else if 1 / 2 < d then f + 1
         else if even f then f else f + 1)"

definition dbl :: "real \<Rightarrow> jsnum" where
  "dbl v =
     (if v = 0 then Num 0
      else (let a = \<bar>v\<bar>;
                k = max (binade a - 52) (- 1074);
                r = real_of_int (rne (a / pow2 k)) * pow2 k
            in if pow2 1024 \<le> r then Inf (0 < v)
               else Num (if 0 < v then r else - r)))"

fun fl :: "jsnum \<Rightarrow> jsnum" where
  "fl (Num v) = dbl v"
| "fl a = a"

text \<open>\<open>Math.round\<close>: the nearest integer, a half rounding up; exact on a double.\<close>

fun Math_round :: "jsnum \<Rightarrow> jsnum" where
  "Math_round (Num v) = Num (real_of_int \<lfloor>v + 1 / 2\<rfloor>)"
| "Math_round a = a"

subsection \<open>Arrays\<close>

text \<open>
  Array indexing \<open>xs[i]\<close> (\<open>undefined\<close> out of range is \<open>None\<close>) and \<open>xs.slice(0, end)\<close>
  (a negative \<open>end\<close> counts from the tail, both ends are clamped to the array).
\<close>

definition js_index :: "'a list \<Rightarrow> int \<Rightarrow> 'a option" where
  "js_index xs i = (if 0 \<le> i \<and> i < int (length xs) then Some (xs ! nat i) else None)"

definition js_slice0 :: "'a list \<Rightarrow> int \<Rightarrow> 'a list" where
  "js_slice0 xs e =
     (let n = int (length xs);
          k = (if e < 0 then max (n + e) 0 else min e n)
      in take (nat k) xs)"

section \<open>The annotation editor (image-editor-tools)\<close>

subsection \<open>The canvas\<close>

text \<open>
  What the 2D context paints. A stroke carries the \<open>strokeStyle\<close> and \<open>lineWidth\<close> that
  \<open>draw\<close> sets before it (\<open>lineCap\<close> and \<open>lineJoin\<close> are always \<open>round\<close>, the composite
  operation always \<open>source-over\<close>). A stroked path is the list of its segments, each a
  \<open>moveTo\<close> followed by a \<open>lineTo\<close>.
\<close>

type_synonym point = "jsnum \<times> jsnum"

record style =
  strokeStyle :: string
  lineWidth :: real

datatype paint =
    StrokePath style "(point \<times> point) list"
  | StrokeRect style jsnum jsnum jsnum jsnum
  | StrokeArc style jsnum jsnum jsnum real real
  | FillText string real string jsnum jsnum

text \<open>
  The pixels of the canvas, as the history of what produced them: a cleared canvas, a
  decoded source image, a paint operation over earlier pixels, or an image drawn over
  pixels that were not cleared. A snapshot (the PNG data URL of \<open>canvas.toDataURL()\<close>)
  is modelled by the pixels it encodes: PNG is lossless, and decoding it gives the same
  pixels back.
\<close>

datatype pixels =
    Cleared
  | Decoded string
  | Over pixels paint
  | ImageOver pixels pixels

type_synonym snapshot = pixels

record canvas =
  canvas_width :: nat
  canvas_height :: nat
  content :: pixels

definition toDataURL :: "canvas \<Rightarrow> snapshot" where
  "toDataURL c = content c"

text \<open>\<open>ctx.clearRect(0, 0, canvas.width, canvas.height)\<close>\<close>

definition clearRect :: "canvas \<Rightarrow> canvas" where
  "clearRect c = c\<lparr>content := Cleared\<rparr>"

text \<open>
  \<open>ctx.drawImage(img, 0, 0)\<close> with an image of the canvas's size: on a cleared canvas
  the result is the image.
\<close>

definition drawImage :: "snapshot \<Rightarrow> canvas \<Rightarrow> canvas" where
  "drawImage img c =
     c\<lparr>content := (if content c = Cleared then img else ImageOver (content c) img)\<rparr>"

definition paintOn :: "paint \<Rightarrow> canvas \<Rightarrow> canvas" where
  "paintOn p c = c\<lparr>content := Over (content c) p\<rparr>"

subsection \<open>State\<close>

datatype tool = Brush | Text | Rectangle | Circle | Arrow

record drawingState =
  tool :: tool
  color :: string
  brushSize :: real
  isDrawing :: bool
  lastX :: jsnum
  lastY :: jsnum

record textElement =
  te_id :: string
  te_x :: jsnum
  te_y :: jsnum
  te_text :: string
  te_color :: string
  te_fontSize :: real
  te_isEditing :: bool

text \<open>
  The component's state. \<open>canvas\<close> is \<open>None\<close> when \<open>canvasRef.current\<close> is \<open>null\<close>; a
  mounted canvas always has a 2D context.
\<close>

record editor =
  drawingState :: drawingState
  textElements :: "textElement list"
  newText :: string
  fontSize :: real
  history :: "snapshot list"
  historyStep :: int
  canvas :: "canvas option"

text \<open>The mouse event and the box \<open>canvas.getBoundingClientRect()\<close> returns for it.\<close>

record mouseEvent =
  clientX :: real
  clientY :: real

record domRect =
  rect_left :: real
  rect_top :: real
  rect_width :: real
  rect_height :: real

definition editor_init :: editor where
  "editor_init =
     \<lparr>drawingState =
        \<lparr>tool = Brush, color = ''#ff0000'', brushSize = 5, isDrawing = False,
         lastX = Num 0, lastY = Num 0\<rparr>,
      textElements = [], newText = [], fontSize = 24,
      history = [], historyStep = - 1, canvas = None\<rparr>"

subsection \<open>History\<close>

definition saveToHistory :: "editor \<Rightarrow> editor" where
  "saveToHistory s =
     (case canvas s of
        None \<Rightarrow> s
      | Some c \<Rightarrow>
          s\<lparr>history := js_slice0 (history s) (historyStep s + 1) @ [toDataURL c],
            historyStep := historyStep s + 1\<rparr>)"

text \<open>
  In \<open>undo\<close> and \<open>redo\<close> the snapshot is loaded into an image whose \<open>onload\<close> clears the
  canvas and draws it. Image decoding is taken to complete before the next event; an
  \<open>undefined\<close> source never loads, and then the canvas keeps its pixels.
\<close>

definition restore :: "snapshot option \<Rightarrow> editor \<Rightarrow> editor" where
  "restore src s =
     (case canvas s of
        None \<Rightarrow> s
      | Some c \<Rightarrow>
          (case src of
             None \<Rightarrow> s
           | Some img \<Rightarrow> s\<lparr>canvas := Some (drawImage img (clearRect c))\<rparr>))"

definition undo :: "editor \<Rightarrow> editor" where
  "undo s =
     (if historyStep s > 0
      then restore (js_index (history s) (historyStep s - 1))
             (s\<lparr>historyStep := historyStep s - 1\<rparr>)
      else s)"

definition redo :: "editor \<Rightarrow> editor" where
  "redo s =
     (if historyStep s < int (length (history s)) - 1
      then restore (js_index (history s) (historyStep s + 1))
             (s\<lparr>historyStep := historyStep s + 1\<rparr>)
      else s)"

text \<open>
  The effect on mount: the source image is decoded, the canvas takes its size (which
  clears it), the image is drawn and a snapshot is saved. The \<open>onload\<close> callback calls
  the \<open>saveToHistory\<close> of the render that ran the effect, the first one, in which
  \<open>historyStep\<close> is the initial \<open>-1\<close>: the slice is taken at that captured value, while
  the increment acts on the current cursor.
\<close>

definition saveToHistoryFrom :: "int \<Rightarrow> editor \<Rightarrow> editor" where
  "saveToHistoryFrom captured s =
     (case canvas s of
        None \<Rightarrow> s
      | Some c \<Rightarrow>
          s\<lparr>history := js_slice0 (history s) (captured + 1) @ [toDataURL c],
            historyStep := historyStep s + 1\<rparr>)"

definition loadImage :: "string \<Rightarrow> nat \<Rightarrow> nat \<Rightarrow> editor \<Rightarrow> editor" where
  "loadImage imageSrc w h s =
     (case canvas s of
        None \<Rightarrow> s
      | Some c \<Rightarrow>
          saveToHistoryFrom (- 1)
            (s\<lparr>canvas :=
                 Some (drawImage (Decoded imageSrc)
                   (c\<lparr>canvas_width := w, canvas_height := h, content := Cleared\<rparr>))\<rparr>))"

subsection \<open>Pointer handlers\<close>

definition getCanvasCoordinates :: "editor \<Rightarrow> domRect \<Rightarrow> mouseEvent \<Rightarrow> point" where
  "getCanvasCoordinates s rect e =
     (case canvas s of
        None \<Rightarrow> (Num 0, Num 0)
      | Some c \<Rightarrow>
          (let scaleX = js_div (Num (real (canvas_width c))) (Num (rect_width rect));
               scaleY = js_div (Num (real (canvas_height c))) (Num (rect_height rect))
           in (js_mul (js_sub (Num (clientX e)) (Num (rect_left rect))) scaleX,
               js_mul (js_sub (Num (clientY e)) (Num (rect_top rect))) scaleY)))"

text \<open>\<open>textId\<close> is \<open>Date.now().toString()\<close>, an input of the handler.\<close>

definition startDrawing :: "string \<Rightarrow> domRect \<Rightarrow> mouseEvent \<Rightarrow> editor \<Rightarrow> editor" where
  "startDrawing textId rect e s =
     (let (x, y) = getCanvasCoordinates s rect e
      in if tool (drawingState s) = Text
         then s\<lparr>textElements := textElements s @
                  [\<lparr>te_id = textId, te_x = x, te_y = y,
                    te_text = (if newText s = [] then ''Sample Text'' else newText s),
                    te_color = color (drawingState s),
                    te_fontSize = fontSize s,
                    te_isEditing = True\<rparr>]\<rparr>
         else s\<lparr>drawingState := (drawingState s)\<lparr>isDrawing := True, lastX := x, lastY := y\<rparr>\<rparr>)"

definition drawArrow :: "style \<Rightarrow> jsnum \<Rightarrow> jsnum \<Rightarrow> jsnum \<Rightarrow> jsnum \<Rightarrow> canvas \<Rightarrow> canvas" where
  "drawArrow st fromX fromY toX toY c =
     (let headLength = Num 20;
          angle = js_atan2 (js_sub toY fromY) (js_sub toX fromX);
          shaft = StrokePath st [((fromX, fromY), (toX, toY))];
          head = StrokePath st
            [((toX, toY),
              (js_sub toX (js_mul headLength (js_cos (js_sub angle (Num (pi / 6))))),
               js_sub toY (js_mul headLength (js_sin (js_sub angle (Num (pi / 6))))))),
             ((toX, toY),
              (js_sub toX (js_mul headLength (js_cos (js_add angle (Num (pi / 6))))),
               js_sub toY (js_mul headLength (js_sin (js_add angle (Num (pi / 6)))))))]
      in paintOn head (paintOn shaft c))"

text \<open>
  The shape branches of \<open>draw\<close> clear the canvas at once and load \<open>history[historyStep]\<close>
  into an image; its \<open>onload\<close> draws the image and then the shape. With an \<open>undefined\<close>
  source the image never loads and the canvas stays cleared. In the circle branch
  \<open>Math.pow(d, 2)\<close> is the product of \<open>d\<close> with itself, also on the special values.
\<close>

definition preview :: "snapshot option \<Rightarrow> (canvas \<Rightarrow> canvas) \<Rightarrow> canvas \<Rightarrow> canvas" where
  "preview src shape c =
     (case src of
        None \<Rightarrow> clearRect c
      | Some img \<Rightarrow> shape (drawImage img (clearRect c)))"

definition draw :: "domRect \<Rightarrow> mouseEvent \<Rightarrow> editor \<Rightarrow> editor" where
  "draw rect e s =
     (if \<not> isDrawing (drawingState s) then s
      else case canvas s of
        None \<Rightarrow> s
      | Some c \<Rightarrow>
          (let (x, y) = getCanvasCoordinates s rect e;
               ds = drawingState s;
               st = \<lparr>strokeStyle = color ds, lineWidth = brushSize ds\<rparr>;
               src = js_index (history s) (historyStep s);
               c' = (case tool ds of
                       Brush \<Rightarrow> paintOn (StrokePath st [((lastX ds, lastY ds), (x, y))]) c
                     | Rectangle \<Rightarrow>
                         preview src
                           (paintOn (StrokeRect st (lastX ds) (lastY ds)
                              (js_sub x (lastX ds)) (js_sub y (lastY ds)))) c
                     | Circle \<Rightarrow>
                         preview src
                           (paintOn (StrokeArc st (lastX ds) (lastY ds)
                              (js_sqrt (js_add
                                 (js_mul (js_sub x (lastX ds)) (js_sub x (lastX ds)))
                                 (js_mul (js_sub y (lastY ds)) (js_sub y (lastY ds)))))
                              0 (2 * pi))) c
                     | Arrow \<Rightarrow> preview src (drawArrow st (lastX ds) (lastY ds) x y) c
                     | Text \<Rightarrow> c)
           in s\<lparr>canvas := Some c', drawingState := ds\<lparr>lastX := x, lastY := y\<rparr>\<rparr>))"

definition stopDrawing :: "editor \<Rightarrow> editor" where
  "stopDrawing s =
     (if isDrawing (drawingState s)
      then saveToHistory (s\<lparr>drawingState := (drawingState s)\<lparr>isDrawing := False\<rparr>\<rparr>)
      else s)"

definition renderTextElements :: "editor \<Rightarrow> editor" where
  "renderTextElements s =
     (case canvas s of
        None \<Rightarrow> s
      | Some c \<Rightarrow>
          s\<lparr>canvas := Some (foldl
               (\<lambda>cv t. paintOn (FillText (te_color t) (te_fontSize t) (te_text t) (te_x t) (te_y t)) cv)
               c (textElements s))\<rparr>)"

text \<open>
  A mouse-down on the canvas: the handler, then the effect that depends on
  \<open>textElements\<close>, which runs exactly when the handler replaced that array (the text
  branch).
\<close>

definition onMouseDown :: "string \<Rightarrow> domRect \<Rightarrow> mouseEvent \<Rightarrow> editor \<Rightarrow> editor" where
  "onMouseDown textId rect e s =
     (if tool (drawingState s) = Text
      then renderTextElements (startDrawing textId rect e s)
      else startDrawing textId rect e s)"

definition selectTool :: "tool \<Rightarrow> editor \<Rightarrow> editor" where
  "selectTool t s = s\<lparr>drawingState := (drawingState s)\<lparr>tool := t\<rparr>\<rparr>"

text \<open>The cursor is \<open>-1\<close> on an empty history and a valid index otherwise.\<close>

definition hist_inv :: "editor \<Rightarrow> bool" where
  "hist_inv s = (- 1 \<le> historyStep s \<and> historyStep s < int (length (history s)) \<and>
                 (history s = [] \<or> 0 \<le> historyStep s))"

text \<open>Concrete states and inputs used to run the handlers.\<close>

definition snapA :: snapshot where "snapA = Decoded ''a''"
definition snapB :: snapshot where "snapB = Decoded ''b''"
definition snapC :: snapshot where "snapC = Decoded ''c''"

definition editor3 :: editor where
  "editor3 = editor_init\<lparr>history := [snapA, snapB, snapC], historyStep := 2,
     canvas := Some \<lparr>canvas_width = 400, canvas_height = 300, content = snapC\<rparr>\<rparr>"

definition rect200 :: domRect where
  "rect200 = \<lparr>rect_left = 0, rect_top = 0, rect_width = 200, rect_height = 150\<rparr>"

definition rect0 :: domRect where
  "rect0 = \<lparr>rect_left = 0, rect_top = 0, rect_width = 0, rect_height = 0\<rparr>"

definition pointer_at :: "real \<Rightarrow> real \<Rightarrow> mouseEvent" where
  "pointer_at px py = \<lparr>clientX = px, clientY = py\<rparr>"

section \<open>The cropper (src/components/image-cropper.tsx)\<close>

text \<open>
  The crop region \<open>{x, y, width, height}\<close> in display space (the fields carry a prefix,
  \<open>x\<close> and \<open>y\<close> being variable names here). Pointer positions and the region are finite
  numbers, on which no division takes place during a drag: they are reals.
\<close>

record cropArea =
  crop_x :: real
  crop_y :: real
  crop_width :: real
  crop_height :: real

text \<open>
  What the handlers read from \<open>containerRef.current\<close>: the bounding box's corner and the
  integer \<open>clientWidth\<close> and \<open>clientHeight\<close>.
\<close>

record containerBox =
  box_left :: real
  box_top :: real
  clientWidth :: int
  clientHeight :: int

record cropper =
  cropArea :: cropArea
  isDragging :: bool
  dragStart :: "real \<times> real"

definition cropper_init :: cropper where
  "cropper_init =
     \<lparr>cropArea = \<lparr>crop_x = 50, crop_y = 50, crop_width = 200, crop_height = 200\<rparr>,
      isDragging = False, dragStart = (0, 0)\<rparr>"

definition handleMouseDown :: "containerBox option \<Rightarrow> mouseEvent \<Rightarrow> cropper \<Rightarrow> cropper" where
  "handleMouseDown container e s =
     (case container of
        None \<Rightarrow> s\<lparr>isDragging := True\<rparr>
      | Some rect \<Rightarrow>
          s\<lparr>isDragging := True,
            dragStart := (clientX e - box_left rect - crop_x (cropArea s),
                          clientY e - box_top rect - crop_y (cropArea s))\<rparr>)"

definition handleMouseMove :: "containerBox option \<Rightarrow> mouseEvent \<Rightarrow> cropper \<Rightarrow> cropper" where
  "handleMouseMove container e s =
     (if \<not> isDragging s then s
      else case container of
        None \<Rightarrow> s
      | Some rect \<Rightarrow>
          (let newX = clientX e - box_left rect - fst (dragStart s);
               newY = clientY e - box_top rect - snd (dragStart s);
               maxX = real_of_int (clientWidth rect) - crop_width (cropArea s);
               maxY = real_of_int (clientHeight rect) - crop_height (cropArea s)
           in s\<lparr>cropArea := (cropArea s)
                  \<lparr>crop_x := max 0 (min newX maxX),
                   crop_y := max 0 (min newY maxY)\<rparr>\<rparr>))"

definition handleMouseUp :: "cropper \<Rightarrow> cropper" where
  "handleMouseUp s = s\<lparr>isDragging := False\<rparr>"

text \<open>The containment the region is meant to keep inside a container.\<close>

definition contained :: "containerBox \<Rightarrow> cropArea \<Rightarrow> bool" where
  "contained rect a =
     (0 \<le> crop_x a \<and> 0 \<le> crop_y a \<and>
      crop_x a + crop_width a \<le> real_of_int (clientWidth rect) \<and>
      crop_y a + crop_height a \<le> real_of_int (clientHeight rect))"

definition narrowBox :: containerBox where
  "narrowBox = \<lparr>box_left = 0, box_top = 0, clientWidth = 180, clientHeight = 400\<rparr>"

definition wideBox :: containerBox where
  "wideBox = \<lparr>box_left = 10, box_top = 20, clientWidth = 600, clientHeight = 400\<rparr>"

section \<open>The export dialog (src/components/image-download.tsx)\<close>

text \<open>
  Both dimension pairs are \<open>{width, height}\<close> objects of JavaScript numbers. The new
  height is \<open>Math.round(width * aspectRatio)\<close>: the quotient and the product are doubles,
  each rounded as the machine rounds it, before \<open>Math.round\<close> sees the product.
\<close>

record dimensions =
  dim_width :: jsnum
  dim_height :: jsnum

record download =
  maintainAspectRatio :: bool
  originalDimensions :: dimensions
  customDimensions :: dimensions

definition updateWidth :: "jsnum \<Rightarrow> download \<Rightarrow> download" where
  "updateWidth w s =
     s\<lparr>customDimensions :=
         (if maintainAspectRatio s \<and> js_gt (dim_width (originalDimensions s)) (Num 0)
          then (let aspectRatio =
                      fl (js_div (dim_height (originalDimensions s)) (dim_width (originalDimensions s)))
                in \<lparr>dim_width = w, dim_height = Math_round (fl (js_mul w aspectRatio))\<rparr>)
          else (customDimensions s)\<lparr>dim_width := w\<rparr>)\<rparr>"

definition updateHeight :: "jsnum \<Rightarrow> download \<Rightarrow> download" where
  "updateHeight h s =
     s\<lparr>customDimensions :=
         (if maintainAspectRatio s \<and> js_gt (dim_height (originalDimensions s)) (Num 0)
          then (let aspectRatio =
                      fl (js_div (dim_width (originalDimensions s)) (dim_height (originalDimensions s)))
                in \<lparr>dim_width = Math_round (fl (js_mul h aspectRatio)), dim_height = h\<rparr>)
          else (customDimensions s)\<lparr>dim_height := h\<rparr>)\<rparr>"

text \<open>
  The dialog after a 1600 by 900 image has loaded, with some earlier custom size; after
  a 100 by 113 image has loaded; and before any image has loaded.
\<close>

definition download1600 :: download where
  "download1600 =
     \<lparr>maintainAspectRatio = True,
      originalDimensions = \<lparr>dim_width = Num 1600, dim_height = Num 900\<rparr>,
      customDimensions = \<lparr>dim_width = Num 1080, dim_height = Num 1080\<rparr>\<rparr>"

definition download113 :: download where
  "download113 =
     \<lparr>maintainAspectRatio = True,
      originalDimensions = \<lparr>dim_width = Num 100, dim_height = Num 113\<rparr>,
      customDimensions = \<lparr>dim_width = Num 100, dim_height = Num 113\<rparr>\<rparr>"

definition download_init :: download where
  "download_init =
     \<lparr>maintainAspectRatio = True,
      originalDimensions = \<lparr>dim_width = Num 0, dim_height = Num 0\<rparr>,
      customDimensions = \<lparr>dim_width = Num 0, dim_height = Num 0\<rparr>\<rparr>"

section \<open>The filters (src/components/image-filters.tsx)\<close>

record filterValues =
  brightness :: real
  contrast :: real
  saturation :: real
  blur :: real
  hueRotate :: real
  sepia :: real
  grayscale :: real
  invert :: real

definition defaultFilters :: filterValues where
  "defaultFilters =
     \<lparr>brightness = 100, contrast = 100, saturation = 100, blur = 0,
      hueRotate = 0, sepia = 0, grayscale = 0, invert = 0\<rparr>"

text \<open>
  The CSS filter value \<open>generateFilterString\<close> writes, as the list of filter functions
  the string denotes, each with the number the template puts in it (per cent, pixels or
  degrees), in the order written.
\<close>

datatype filterFn =
    Brightness_pct real
  | Contrast_pct real
  | Saturate_pct real
  | Blur_px real
  | HueRotate_deg real
  | Sepia_pct real
  | Grayscale_pct real
  | Invert_pct real

definition generateFilterString :: "filterValues \<Rightarrow> filterFn list" where
  "generateFilterString filterValues =
     [Brightness_pct (brightness filterValues),
      Contrast_pct (contrast filterValues),
      Saturate_pct (saturation filterValues),
      Blur_px (blur filterValues),
      HueRotate_deg (hueRotate filterValues),
      Sepia_pct (sepia filterValues),
      Grayscale_pct (grayscale filterValues),
      Invert_pct (invert filterValues)]"

text \<open>
  What the platform does with such a value is not code of this repository: the
  definitions below follow the W3C Filter Effects Module, which defines each function by
  a transfer function or a colour matrix on the colour channels, every result clamped to
  the unit interval, the functions applied from left to right. Channels are reals in
  \<open>[0, 1]\<close>; arithmetic is exact. A Gaussian blur of deviation zero leaves the image as it
  is; for a positive deviation the blur is the parameter \<open>gauss\<close>.
\<close>

record rgba =
  red :: real
  green :: real
  blue :: real
  alpha :: real

record buffer =
  buf_width :: nat
  buf_height :: nat
  samples :: "rgba list"

definition clamp01 :: "real \<Rightarrow> real" where
  "clamp01 v = max 0 (min 1 v)"

definition transfer :: "(real \<Rightarrow> real) \<Rightarrow> rgba \<Rightarrow> rgba" where
  "transfer f p =
     p\<lparr>red := clamp01 (f (red p)), green := clamp01 (f (green p)), blue := clamp01 (f (blue p))\<rparr>"

definition colorMatrix ::
  "real \<times> real \<times> real \<Rightarrow> real \<times> real \<times> real \<Rightarrow> real \<times> real \<times> real \<Rightarrow> rgba \<Rightarrow> rgba" where
  "colorMatrix r1 r2 r3 p =
     (let row = (\<lambda>(a, b, c). clamp01 (a * red p + b * green p + c * blue p))
      in p\<lparr>red := row r1, green := row r2, blue := row r3\<rparr>)"

fun filterPixel :: "filterFn \<Rightarrow> rgba \<Rightarrow> rgba" where
  "filterPixel (Brightness_pct v) p = transfer (\<lambda>c. (v / 100) * c) p"
| "filterPixel (Contrast_pct v) p =
     transfer (\<lambda>c. (v / 100) * c - (1 / 2) * (v / 100) + 1 / 2) p"
| "filterPixel (Saturate_pct v) p =
     (let s = v / 100
      in colorMatrix
           (0.213 + 0.787 * s, 0.715 - 0.715 * s, 0.072 - 0.072 * s)
           (0.213 - 0.213 * s, 0.715 + 0.285 * s, 0.072 - 0.072 * s)
           (0.213 - 0.213 * s, 0.715 - 0.715 * s, 0.072 + 0.928 * s) p)"
| "filterPixel (Blur_px v) p = p"
| "filterPixel (HueRotate_deg v) p =
     (let a = v * pi / 180; co = cos a; si = sin a
      in colorMatrix
           (0.213 + co * 0.787 - si * 0.213, 0.715 - co * 0.715 - si * 0.715,
            0.072 - co * 0.072 + si * 0.928)
           (0.213 - co * 0.213 + si * 0.143, 0.715 + co * 0.285 + si * 0.140,
            0.072 - co * 0.072 - si * 0.283)
           (0.213 - co * 0.213 - si * 0.787, 0.715 - co * 0.715 + si * 0.715,
            0.072 + co * 0.928 + si * 0.072) p)"
| "filterPixel (Sepia_pct v) p =
     (let t = 1 - min 1 (v / 100)
      in colorMatrix
           (0.393 + 0.607 * t, 0.769 - 0.769 * t, 0.189 - 0.189 * t)
           (0.349 - 0.349 * t, 0.686 + 0.314 * t, 0.168 - 0.168 * t)
           (0.272 - 0.272 * t, 0.534 - 0.534 * t, 0.131 + 0.869 * t) p)"
| "filterPixel (Grayscale_pct v) p =
     (let t = 1 - min 1 (v / 100)
      in colorMatrix
           (0.2126 + 0.7874 * t, 0.7152 - 0.7152 * t, 0.0722 - 0.0722 * t)
           (0.2126 - 0.2126 * t, 0.7152 + 0.2848 * t, 0.0722 - 0.0722 * t)
           (0.2126 - 0.2126 * t, 0.7152 - 0.7152 * t, 0.0722 + 0.9278 * t) p)"
| "filterPixel (Invert_pct v) p =
     (let a = min 1 (v / 100) in transfer (\<lambda>c. a + c * (1 - 2 * a)) p)"

definition applyFn :: "(real \<Rightarrow> buffer \<Rightarrow> buffer) \<Rightarrow> filterFn \<Rightarrow> buffer \<Rightarrow> buffer" where
  "applyFn gauss f b =
     (case f of
        Blur_px v \<Rightarrow> (if v = 0 then b else gauss v b)
      | _ \<Rightarrow> b\<lparr>samples := map (filterPixel f) (samples b)\<rparr>)"

text \<open>
  \<open>applyFilters\<close>: a canvas of the image's size, \<open>ctx.filter\<close> set to the generated
  value, the image drawn at the origin; the canvas then holds the filtered image.
\<close>

definition applyFilters :: "(real \<Rightarrow> buffer \<Rightarrow> buffer) \<Rightarrow> filterValues \<Rightarrow> buffer \<Rightarrow> buffer" where
  "applyFilters gauss filters img =
     foldl (\<lambda>b f. applyFn gauss f b) img (generateFilterString filters)"

definition unit_pixel :: "rgba \<Rightarrow> bool" where
  "unit_pixel p = (0 \<le> red p \<and> red p \<le> 1 \<and> 0 \<le> green p \<and> green p \<le> 1 \<and>
                   0 \<le> blue p \<and> blue p \<le> 1)"

definition buffer2 :: buffer where
  "buffer2 =
     \<lparr>buf_width = 2, buf_height = 1,
      samples = [\<lparr>red = 1, green = 1 / 2, blue = 0, alpha = 1\<rparr>,
                 \<lparr>red = 1 / 4, green = 3 / 4, blue = 1, alpha = 1 / 2\<rparr>]\<rparr>"

section \<open>Properties of the session\<close>

lemma js_or_None [simp]: "js_or None b = b"
  by (simp add: js_or_def truthy_def)

lemma js_or_Some [simp]: "v \<noteq> [] \<Longrightarrow> js_or (Some v) b = Some v"
  by (simp add: js_or_def truthy_def)

text \<open>
  C6. The cropper, whenever it is rendered, is given the image the preview shows
  (\<open>currentImage\<close>: edited, else filtered, else cropped, else uploaded). Completing a
  crop stores the new data URL as the cropped image and clears the filtered and the
  edited reference, so that the cropped image is the current one. The data URL that
  \<open>canvas.toDataURL\<close> produces is never the empty string.
\<close>

theorem crop_commit_source_and_effect:
  "(render s = CropperView src \<longrightarrow> src = currentImage s) \<and>
   croppedImage (handleCropComplete c s) = Some c \<and>
   filteredImage (handleCropComplete c s) = None \<and>
   editedImage (handleCropComplete c s) = None \<and>
   uploadedImage (handleCropComplete c s) = uploadedImage s \<and>
   (c \<noteq> [] \<longrightarrow> currentImage (handleCropComplete c s) = Some c)"
  by (simp add: render_def cropperSrc_def currentImage_def handleCropComplete_def
      split: if_splits)

theorem crop_commit_source_and_effect_witness:
  "render session0 = CropperView (Some ''data:filtered'') \<and>
   currentImage session0 = Some ''data:filtered'' \<and>
   filteredImage (handleCropComplete ''data:crop'' session0) = None \<and>
   editedImage (handleCropComplete ''data:crop'' session0) = None \<and>
   ''data:crop'' \<noteq> [] \<and>
   currentImage (handleCropComplete ''data:crop'' session0) = Some ''data:crop''"
  using crop_commit_source_and_effect [of session0 "Some ''data:filtered''" "''data:crop''"]
  by (simp add: render_def cropperSrc_def session0_def truthy_def js_or_def)



section \<open>Properties of the coordinate mapper\<close>

text \<open>
  C3, as stated, fails: with a display box of width and height zero the mapper does not
  return the origin. A 400 by 300 canvas and a pointer at (50, 50) give infinite
  coordinates.
\<close>

theorem mapper_zero_box_counterexample:
  "getCanvasCoordinates editor3 rect0 (pointer_at 50 50) = (Inf True, Inf True) \<and>
   getCanvasCoordinates editor3 rect0 (pointer_at 50 50) \<noteq> (Num 0, Num 0)"
  by (simp add: getCanvasCoordinates_def editor3_def editor_init_def rect0_def pointer_at_def)

text \<open>
  C3, amended. The mapper returns the origin when there is no canvas element. With a
  canvas and a display box of non-zero width and height it returns
  \<open>(px * bufW / dispW, py * bufH / dispH)\<close>, where \<open>(px, py)\<close> is the pointer relative to the
  box's corner. With a display width (height) of zero it divides by zero unguarded and
  the x (y) coordinate is an infinity or NaN, never a finite number.
\<close>

theorem mapper_amended:
  "(canvas s = None \<longrightarrow> getCanvasCoordinates s rect e = (Num 0, Num 0)) \<and>
   (canvas s = Some c \<and> rect_width rect \<noteq> 0 \<and> rect_height rect \<noteq> 0 \<longrightarrow>
      getCanvasCoordinates s rect e =
        (Num ((clientX e - rect_left rect) * real (canvas_width c) / rect_width rect),
         Num ((clientY e - rect_top rect) * real (canvas_height c) / rect_height rect))) \<and>
   (canvas s = Some c \<and> rect_width rect = 0 \<longrightarrow>
      (\<forall>v. fst (getCanvasCoordinates s rect e) \<noteq> Num v)) \<and>
   (canvas s = Some c \<and> rect_height rect = 0 \<longrightarrow>
      (\<forall>v. snd (getCanvasCoordinates s rect e) \<noteq> Num v))"
  by (simp add: getCanvasCoordinates_def Let_def)

theorem mapper_amended_witness:
  "canvas editor3 = Some \<lparr>canvas_width = 400, canvas_height = 300, content = snapC\<rparr> \<and>
   rect_width rect200 \<noteq> 0 \<and> rect_height rect200 \<noteq> 0 \<and>
   getCanvasCoordinates editor3 rect200 (pointer_at 50 50) = (Num 100, Num 100) \<and>
   canvas editor_init = None \<and>
   getCanvasCoordinates editor_init rect0 (pointer_at 50 50) = (Num 0, Num 0) \<and>
   rect_width rect0 = 0 \<and> fst (getCanvasCoordinates editor3 rect0 (pointer_at 50 50)) \<noteq> Num 0"
  using mapper_amended [of editor3 rect200 "pointer_at 50 50"
      "\<lparr>canvas_width = 400, canvas_height = 300, content = snapC\<rparr>"]
    mapper_amended [of editor_init rect0 "pointer_at 50 50"
      "\<lparr>canvas_width = 400, canvas_height = 300, content = snapC\<rparr>"]
    mapper_amended [of editor3 rect0 "pointer_at 50 50"
      "\<lparr>canvas_width = 400, canvas_height = 300, content = snapC\<rparr>"]
  by (simp add: editor3_def editor_init_def rect200_def rect0_def pointer_at_def)

section \<open>Properties of the cropper\<close>

text \<open>
  C2, as stated, fails: the region is not resized during a drag, so a region wider than
  its container cannot be contained. The initial 200 by 200 region, grabbed at (60, 60)
  and dragged to (100, 100) in a container 180 wide, ends at \<open>x = 0\<close> with
  \<open>x + width = 200\<close>.
\<close>

theorem crop_drag_containment_counterexample:
  "\<not> contained narrowBox
      (cropArea (handleMouseMove (Some narrowBox) (pointer_at 100 100)
         (handleMouseDown (Some narrowBox) (pointer_at 60 60) cropper_init)))"
  by (simp add: contained_def handleMouseMove_def handleMouseDown_def cropper_init_def
      narrowBox_def pointer_at_def Let_def)

text \<open>
  C2, amended. After every drag update the region has \<open>x \<ge> 0\<close> and \<open>y \<ge> 0\<close> and its
  size is unchanged; \<open>x + width \<le> containerWidth\<close> holds when the region is no wider than
  the container, and \<open>y + height \<le> containerHeight\<close> when it is no taller, for every
  pointer position and grab offset.
\<close>

theorem crop_drag_amended:
  assumes "isDragging s"
  shows "0 \<le> crop_x (cropArea (handleMouseMove (Some rect) e s)) \<and>
         0 \<le> crop_y (cropArea (handleMouseMove (Some rect) e s)) \<and>
         crop_width (cropArea (handleMouseMove (Some rect) e s)) = crop_width (cropArea s) \<and>
         crop_height (cropArea (handleMouseMove (Some rect) e s)) = crop_height (cropArea s) \<and>
         (crop_width (cropArea s) \<le> real_of_int (clientWidth rect) \<longrightarrow>
            crop_x (cropArea (handleMouseMove (Some rect) e s)) + crop_width (cropArea s)
              \<le> real_of_int (clientWidth rect)) \<and>
         (crop_height (cropArea s) \<le> real_of_int (clientHeight rect) \<longrightarrow>
            crop_y (cropArea (handleMouseMove (Some rect) e s)) + crop_height (cropArea s)
              \<le> real_of_int (clientHeight rect))"
  using assms by (auto simp add: handleMouseMove_def Let_def)

theorem crop_drag_amended_witness:
  "isDragging (handleMouseDown (Some wideBox) (pointer_at 100 100) cropper_init) \<and>
   crop_width (cropArea (handleMouseDown (Some wideBox) (pointer_at 100 100) cropper_init))
     \<le> real_of_int (clientWidth wideBox) \<and>
   crop_height (cropArea (handleMouseDown (Some wideBox) (pointer_at 100 100) cropper_init))
     \<le> real_of_int (clientHeight wideBox) \<and>
   contained wideBox (cropArea (handleMouseMove (Some wideBox) (pointer_at 900 (- 30))
      (handleMouseDown (Some wideBox) (pointer_at 100 100) cropper_init)))"
  using crop_drag_amended [of "handleMouseDown (Some wideBox) (pointer_at 100 100) cropper_init"
      wideBox "pointer_at 900 (- 30)"]
  by (simp add: contained_def handleMouseDown_def cropper_init_def wideBox_def pointer_at_def)

section \<open>Properties of the export dialog\<close>

text \<open>The exponent of a double, by conditional equations that evaluate on numerals.\<close>

lemma binade_ge2: "2 \<le> a \<Longrightarrow> binade a = binade (a / 2) + 1"
  by (subst binade.simps) simp

lemma binade_lt1: "0 < a \<Longrightarrow> a < 1 \<Longrightarrow> binade a = binade (a * 2) - 1"
  by (subst binade.simps) simp

lemma binade_unit: "1 \<le> a \<Longrightarrow> a < 2 \<Longrightarrow> binade a = 0"
  by (subst binade.simps) simp

lemmas dbl_eval = dbl_def binade_ge2 binade_lt1 binade_unit pow2_def rne_def Let_def

text \<open>
  C8. With the aspect-ratio lock on and an original image of positive width, setting the
  width sets the height to \<open>Math.round\<close> of the width times the original height over the
  original width, in double arithmetic; symmetrically for the height. The custom
  dimensions shown before play no part. For an original of 1600 by 900, a width of 800
  gives a height of 450; for an original of 100 by 113, a width of 50 gives 56, the
  double product being just below 56.5.
\<close>

theorem aspect_lock_from_original:
  "(maintainAspectRatio s \<and> js_gt (dim_width (originalDimensions s)) (Num 0) \<longrightarrow>
      customDimensions (updateWidth w s) =
        \<lparr>dim_width = w,
         dim_height = Math_round (fl (js_mul w
           (fl (js_div (dim_height (originalDimensions s)) (dim_width (originalDimensions s))))))\<rparr> \<and>
      customDimensions (updateWidth w (s\<lparr>customDimensions := d\<rparr>)) =
        customDimensions (updateWidth w s)) \<and>
   (maintainAspectRatio s \<and> js_gt (dim_height (originalDimensions s)) (Num 0) \<longrightarrow>
      customDimensions (updateHeight h s) =
        \<lparr>dim_width = Math_round (fl (js_mul h
           (fl (js_div (dim_width (originalDimensions s)) (dim_height (originalDimensions s)))))),
         dim_height = h\<rparr> \<and>
      customDimensions (updateHeight h (s\<lparr>customDimensions := d\<rparr>)) =
        customDimensions (updateHeight h s)) \<and>
   customDimensions (updateWidth (Num 800) download1600) =
     \<lparr>dim_width = Num 800, dim_height = Num 450\<rparr> \<and>
   customDimensions (updateWidth (Num 50) download113) =
     \<lparr>dim_width = Num 50, dim_height = Num 56\<rparr>"
proof -
  have gen: "(maintainAspectRatio s \<and> js_gt (dim_width (originalDimensions s)) (Num 0) \<longrightarrow>
      customDimensions (updateWidth w s) =
        \<lparr>dim_width = w,
         dim_height = Math_round (fl (js_mul w
           (fl (js_div (dim_height (originalDimensions s)) (dim_width (originalDimensions s))))))\<rparr> \<and>
      customDimensions (updateWidth w (s\<lparr>customDimensions := d\<rparr>)) =
        customDimensions (updateWidth w s)) \<and>
   (maintainAspectRatio s \<and> js_gt (dim_height (originalDimensions s)) (Num 0) \<longrightarrow>
      customDimensions (updateHeight h s) =
        \<lparr>dim_width = Math_round (fl (js_mul h
           (fl (js_div (dim_width (originalDimensions s)) (dim_height (originalDimensions s)))))),
         dim_height = h\<rparr> \<and>
      customDimensions (updateHeight h (s\<lparr>customDimensions := d\<rparr>)) =
        customDimensions (updateHeight h s))"
    by (simp add: updateWidth_def updateHeight_def Let_def)
  have e1: "customDimensions (updateWidth (Num 800) download1600) =
     \<lparr>dim_width = Num 800, dim_height = Num 450\<rparr>"
    by (simp add: updateWidth_def download1600_def dbl_eval)
  have e2: "customDimensions (updateWidth (Num 50) download113) =
     \<lparr>dim_width = Num 50, dim_height = Num 56\<rparr>"
    by (simp add: updateWidth_def download113_def dbl_eval)
  from gen e1 e2 show ?thesis by blast
qed

theorem aspect_lock_from_original_witness:
  "maintainAspectRatio download1600 \<and>
   js_gt (dim_width (originalDimensions download1600)) (Num 0) \<and>
   js_gt (dim_height (originalDimensions download1600)) (Num 0) \<and>
   customDimensions (updateWidth (Num 800) download1600) =
     \<lparr>dim_width = Num 800, dim_height = Num 450\<rparr> \<and>
   customDimensions (updateHeight (Num 450) download1600) =
     \<lparr>dim_width = Num 800, dim_height = Num 450\<rparr>"
  using aspect_lock_from_original [of download1600 "Num 800"
      "\<lparr>dim_width = Num 1, dim_height = Num 1\<rparr>" "Num 450"]
  by (simp add: download1600_def dbl_eval)

text \<open>
  Before the image has loaded the original dimensions are 0: the guard fails and only
  the changed dimension is set.
\<close>

lemma updateWidth_unloaded:
  "customDimensions (updateWidth (Num 800) download_init) =
     \<lparr>dim_width = Num 800, dim_height = Num 0\<rparr>"
  by (simp add: updateWidth_def download_init_def)

section \<open>Properties of the filters\<close>

lemma clamp01_unit: "0 \<le> v \<Longrightarrow> v \<le> 1 \<Longrightarrow> clamp01 v = v"
  by (simp add: clamp01_def)

lemma filterPixel_default:
  assumes "unit_pixel p"
  shows "filterPixel (Brightness_pct 100) p = p"
    and "filterPixel (Contrast_pct 100) p = p"
    and "filterPixel (Saturate_pct 100) p = p"
    and "filterPixel (HueRotate_deg 0) p = p"
    and "filterPixel (Sepia_pct 0) p = p"
    and "filterPixel (Grayscale_pct 0) p = p"
    and "filterPixel (Invert_pct 0) p = p"
  using assms
  by (simp_all add: unit_pixel_def transfer_def colorMatrix_def clamp01_unit)

lemma map_default:
  assumes "\<forall>p \<in> set xs. unit_pixel p"
  shows "map (filterPixel (Brightness_pct 100)) xs = xs"
    and "map (filterPixel (Contrast_pct 100)) xs = xs"
    and "map (filterPixel (Saturate_pct 100)) xs = xs"
    and "map (filterPixel (HueRotate_deg 0)) xs = xs"
    and "map (filterPixel (Sepia_pct 0)) xs = xs"
    and "map (filterPixel (Grayscale_pct 0)) xs = xs"
    and "map (filterPixel (Invert_pct 0)) xs = xs"
proof -
  have keep: "map f xs = xs" if "\<And>p. unit_pixel p \<Longrightarrow> f p = p" for f
    using assms that by (auto intro: map_idI)
  show "map (filterPixel (Brightness_pct 100)) xs = xs"
    by (rule keep) (rule filterPixel_default)
  show "map (filterPixel (Contrast_pct 100)) xs = xs"
    by (rule keep) (rule filterPixel_default)
  show "map (filterPixel (Saturate_pct 100)) xs = xs"
    by (rule keep) (rule filterPixel_default)
  show "map (filterPixel (HueRotate_deg 0)) xs = xs"
    by (rule keep) (rule filterPixel_default)
  show "map (filterPixel (Sepia_pct 0)) xs = xs"
    by (rule keep) (rule filterPixel_default)
  show "map (filterPixel (Grayscale_pct 0)) xs = xs"
    by (rule keep) (rule filterPixel_default)
  show "map (filterPixel (Invert_pct 0)) xs = xs"
    by (rule keep) (rule filterPixel_default)
qed

text \<open>
  C7. Applying the default filter values to a buffer whose colour channels lie in the
  unit interval gives the buffer back, whatever the Gaussian blur does for a positive
  deviation: each of the eight functions is the identity at its default value.
\<close>

theorem default_filters_identity:
  assumes "\<forall>p \<in> set (samples img). unit_pixel p"
  shows "applyFilters gauss defaultFilters img = img"
  using assms
  by (simp add: applyFilters_def generateFilterString_def defaultFilters_def applyFn_def
      map_default del: filterPixel.simps)

theorem default_filters_identity_witness:
  "unit_pixel \<lparr>red = 1, green = 1 / 2, blue = 0, alpha = 1\<rparr> \<and>
   unit_pixel \<lparr>red = 1 / 4, green = 3 / 4, blue = 1, alpha = 1 / 2\<rparr> \<and>
   applyFilters (\<lambda>r b. b\<lparr>samples := []\<rparr>) defaultFilters buffer2 = buffer2"
  using default_filters_identity [of buffer2 "\<lambda>r b. b\<lparr>samples := []\<rparr>"]
  by (simp add: buffer2_def unit_pixel_def)

section \<open>Properties of the history stack\<close>

text \<open>
  The cursor invariant holds initially; the image load, coming first, and every pointer
  and history handler after it keep it.
\<close>

lemma js_slice0_take:
  "- 1 \<le> e \<Longrightarrow> e < int (length xs) \<Longrightarrow> js_slice0 xs (e + 1) = take (nat (e + 1)) xs"
  by (simp add: js_slice0_def Let_def min_def)

lemma js_index_append_last:
  "js_index (xs @ [v]) (int (length xs)) = Some v"
  by (simp add: js_index_def)

lemma hist_inv_init: "hist_inv editor_init"
  by (simp add: hist_inv_def editor_init_def)

lemma hist_inv_saveToHistory: "hist_inv s \<Longrightarrow> hist_inv (saveToHistory s)"
  by (auto simp add: hist_inv_def saveToHistory_def js_slice0_def Let_def min_def
      split: option.splits)

lemma restore_history [simp]:
  "history (restore src s) = history s" "historyStep (restore src s) = historyStep s"
  by (simp_all add: restore_def split: option.splits)

lemma hist_inv_loadImage:
  "history s = [] \<Longrightarrow> historyStep s = - 1 \<Longrightarrow> hist_inv (loadImage imageSrc w h s)"
  by (simp add: hist_inv_def loadImage_def saveToHistoryFrom_def js_slice0_def
      split: option.splits)

lemma hist_inv_undo: "hist_inv s \<Longrightarrow> hist_inv (undo s)"
  by (auto simp add: hist_inv_def undo_def)

lemma hist_inv_redo: "hist_inv s \<Longrightarrow> hist_inv (redo s)"
  by (auto simp add: hist_inv_def redo_def)

lemma draw_history [simp]:
  "history (draw rect e s) = history s" "historyStep (draw rect e s) = historyStep s"
  by (simp_all add: draw_def Let_def split: option.splits prod.splits)

lemma startDrawing_history [simp]:
  "history (startDrawing tid rect e s) = history s"
  "historyStep (startDrawing tid rect e s) = historyStep s"
  by (simp_all add: startDrawing_def Let_def split: prod.splits)

lemma renderTextElements_history [simp]:
  "history (renderTextElements s) = history s"
  "historyStep (renderTextElements s) = historyStep s"
  by (simp_all add: renderTextElements_def split: option.splits)

lemma hist_inv_draw: "hist_inv s \<Longrightarrow> hist_inv (draw rect e s)"
  by (simp add: hist_inv_def)

lemma hist_inv_onMouseDown: "hist_inv s \<Longrightarrow> hist_inv (onMouseDown tid rect e s)"
  by (simp add: hist_inv_def onMouseDown_def)

lemma hist_inv_stopDrawing: "hist_inv s \<Longrightarrow> hist_inv (stopDrawing s)"
proof -
  assume a: "hist_inv s"
  have "hist_inv (s\<lparr>drawingState := d\<rparr>)" for d
    using a by (simp add: hist_inv_def)
  then show ?thesis
    using a by (simp add: stopDrawing_def hist_inv_saveToHistory)
qed

lemma undo_undo_editor3:
  "undo (undo editor3) = editor3\<lparr>historyStep := 0,
      canvas := Some \<lparr>canvas_width = 400, canvas_height = 300, content = snapA\<rparr>\<rparr>"
  by (simp add: undo_def restore_def editor3_def editor_init_def js_index_def
      drawImage_def clearRect_def)

text \<open>
  C4. Saving a snapshot keeps the snapshots up to and including the cursor, drops every
  later one, appends the canvas's snapshot and moves the cursor onto it; a pointer-up
  that ends a gesture does exactly this. In particular, from a history of three
  snapshots with the cursor at 2, two undos followed by one committed brush stroke leave
  a history of two snapshots with the cursor at 1.
\<close>

theorem save_truncates_redo_branch:
  assumes "hist_inv s" and "canvas s = Some c"
  shows "history (saveToHistory s) = take (nat (historyStep s + 1)) (history s) @ [content c] \<and>
         historyStep (saveToHistory s) = historyStep s + 1 \<and>
         int (length (history (saveToHistory s))) = historyStep s + 2 \<and>
         js_index (history (saveToHistory s)) (historyStep (saveToHistory s)) = Some (content c) \<and>
         (isDrawing (drawingState s) \<longrightarrow>
            history (stopDrawing s) = history (saveToHistory s) \<and>
            historyStep (stopDrawing s) = historyStep s + 1) \<and>
         length (history editor3) = 3 \<and> historyStep editor3 = 2 \<and>
         historyStep (undo (undo editor3)) = 0 \<and>
         history (stopDrawing (draw rect200 (pointer_at 20 20)
            (onMouseDown [] rect200 (pointer_at 10 10) (undo (undo editor3))))) =
           [snapA, Over snapA (StrokePath \<lparr>strokeStyle = ''#ff0000'', lineWidth = 5\<rparr>
                      [((Num 20, Num 20), (Num 40, Num 40))])] \<and>
         historyStep (stopDrawing (draw rect200 (pointer_at 20 20)
            (onMouseDown [] rect200 (pointer_at 10 10) (undo (undo editor3))))) = 1"
proof -
  have inv: "- 1 \<le> historyStep s" "historyStep s < int (length (history s))"
    using assms(1) by (simp_all add: hist_inv_def)
  have h: "history (saveToHistory s) = take (nat (historyStep s + 1)) (history s) @ [content c]"
    using assms(2) inv by (simp add: saveToHistory_def js_slice0_take toDataURL_def)
  have st: "historyStep (saveToHistory s) = historyStep s + 1"
    using assms(2) by (simp add: saveToHistory_def)
  have len: "int (length (history (saveToHistory s))) = historyStep s + 2"
    using inv by (auto simp add: h min_def)
  have top: "js_index (history (saveToHistory s)) (historyStep (saveToHistory s)) = Some (content c)"
    using inv by (auto simp add: h st js_index_def min_def nth_append)
  have stop: "isDrawing (drawingState s) \<longrightarrow>
            history (stopDrawing s) = history (saveToHistory s) \<and>
            historyStep (stopDrawing s) = historyStep s + 1"
    using assms(2) by (simp add: stopDrawing_def saveToHistory_def)
  have sc: "stopDrawing (draw rect200 (pointer_at 20 20)
            (onMouseDown [] rect200 (pointer_at 10 10) (undo (undo editor3)))) =
     editor3\<lparr>drawingState := (drawingState editor3)\<lparr>lastX := Num 40, lastY := Num 40\<rparr>,
        history := [snapA, Over snapA (StrokePath \<lparr>strokeStyle = ''#ff0000'', lineWidth = 5\<rparr>
                      [((Num 20, Num 20), (Num 40, Num 40))])],
        historyStep := 1,
        canvas := Some \<lparr>canvas_width = 400, canvas_height = 300,
           content = Over snapA (StrokePath \<lparr>strokeStyle = ''#ff0000'', lineWidth = 5\<rparr>
                      [((Num 20, Num 20), (Num 40, Num 40))])\<rparr>\<rparr>"
    unfolding undo_undo_editor3
    by (simp add: onMouseDown_def startDrawing_def draw_def stopDrawing_def saveToHistory_def
        getCanvasCoordinates_def editor3_def editor_init_def rect200_def pointer_at_def
        paintOn_def toDataURL_def js_slice0_def Let_def)
  have e3: "length (history editor3) = 3 \<and> historyStep editor3 = 2"
    by (simp add: editor3_def)
  have u0: "historyStep (undo (undo editor3)) = 0"
    by (simp add: undo_undo_editor3)
  show ?thesis
    using h st len top stop e3 u0 by (simp add: sc)
qed


theorem save_truncates_redo_branch_witness:
  "hist_inv (undo (undo editor3)) \<and>
   canvas (undo (undo editor3)) = Some \<lparr>canvas_width = 400, canvas_height = 300, content = snapA\<rparr> \<and>
   history (saveToHistory (undo (undo editor3))) = [snapA, snapA] \<and>
   historyStep (saveToHistory (undo (undo editor3))) = 1"
  using save_truncates_redo_branch [of "undo (undo editor3)"
      "\<lparr>canvas_width = 400, canvas_height = 300, content = snapA\<rparr>"]
  unfolding undo_undo_editor3
  by (simp add: hist_inv_def editor3_def)

text \<open>
  C5. Undo with a cursor above 0 lowers the cursor by one and makes the canvas the
  snapshot at the new cursor; redo with a cursor below the last index raises it by one
  and makes the canvas the snapshot there; the history itself is untouched. Undo at
  cursor 0 (or below) and redo at the tail return the state unchanged.
\<close>

theorem undo_redo_steps:
  "(0 < historyStep s \<longrightarrow>
      historyStep (undo s) = historyStep s - 1 \<and> history (undo s) = history s) \<and>
   (0 < historyStep s \<and> hist_inv s \<and> canvas s = Some c \<longrightarrow>
      canvas (undo s) = Some (c\<lparr>content := history s ! nat (historyStep s - 1)\<rparr>) \<and>
      map_option content (canvas (undo s)) = js_index (history (undo s)) (historyStep (undo s))) \<and>
   (\<not> 0 < historyStep s \<longrightarrow> undo s = s) \<and>
   (historyStep s < int (length (history s)) - 1 \<longrightarrow>
      historyStep (redo s) = historyStep s + 1 \<and> history (redo s) = history s) \<and>
   (historyStep s < int (length (history s)) - 1 \<and> hist_inv s \<and> canvas s = Some c \<longrightarrow>
      canvas (redo s) = Some (c\<lparr>content := history s ! nat (historyStep s + 1)\<rparr>) \<and>
      map_option content (canvas (redo s)) = js_index (history (redo s)) (historyStep (redo s))) \<and>
   (\<not> historyStep s < int (length (history s)) - 1 \<longrightarrow> redo s = s)"
proof -
  have u1: "0 < historyStep s \<longrightarrow>
      historyStep (undo s) = historyStep s - 1 \<and> history (undo s) = history s"
    by (simp add: undo_def)
  have u2: "0 < historyStep s \<and> hist_inv s \<and> canvas s = Some c \<longrightarrow>
      canvas (undo s) = Some (c\<lparr>content := history s ! nat (historyStep s - 1)\<rparr>) \<and>
      map_option content (canvas (undo s)) = js_index (history (undo s)) (historyStep (undo s))"
    by (simp add: undo_def restore_def js_index_def hist_inv_def drawImage_def clearRect_def)
  have u3: "\<not> 0 < historyStep s \<longrightarrow> undo s = s"
    by (simp add: undo_def)
  have r1: "historyStep s < int (length (history s)) - 1 \<longrightarrow>
      historyStep (redo s) = historyStep s + 1 \<and> history (redo s) = history s"
    by (simp add: redo_def)
  have r2: "historyStep s < int (length (history s)) - 1 \<and> hist_inv s \<and> canvas s = Some c \<longrightarrow>
      canvas (redo s) = Some (c\<lparr>content := history s ! nat (historyStep s + 1)\<rparr>) \<and>
      map_option content (canvas (redo s)) = js_index (history (redo s)) (historyStep (redo s))"
    by (simp add: redo_def restore_def js_index_def hist_inv_def drawImage_def clearRect_def)
  have r3: "\<not> historyStep s < int (length (history s)) - 1 \<longrightarrow> redo s = s"
    by (simp add: redo_def)
  from u1 u2 u3 r1 r2 r3 show ?thesis by blast
qed

theorem undo_redo_steps_witness:
  "0 < historyStep editor3 \<and> hist_inv editor3 \<and>
   canvas editor3 = Some \<lparr>canvas_width = 400, canvas_height = 300, content = snapC\<rparr> \<and>
   historyStep (undo editor3) = 1 \<and>
   canvas (undo editor3) = Some \<lparr>canvas_width = 400, canvas_height = 300, content = snapB\<rparr> \<and>
   \<not> historyStep editor3 < int (length (history editor3)) - 1 \<and>
   redo editor3 = editor3 \<and>
   \<not> 0 < historyStep (undo (undo editor3)) \<and>
   undo (undo (undo editor3)) = undo (undo editor3) \<and>
   historyStep (undo (undo editor3)) < int (length (history (undo (undo editor3)))) - 1 \<and>
   hist_inv (undo (undo editor3)) \<and>
   historyStep (redo (undo (undo editor3))) = 1 \<and>
   canvas (redo (undo (undo editor3))) =
     Some \<lparr>canvas_width = 400, canvas_height = 300, content = snapB\<rparr>"
  using undo_redo_steps [of editor3 "\<lparr>canvas_width = 400, canvas_height = 300, content = snapC\<rparr>"]
    undo_redo_steps [of "undo (undo editor3)"
      "\<lparr>canvas_width = 400, canvas_height = 300, content = snapA\<rparr>"]
  unfolding undo_undo_editor3
  by (simp add: hist_inv_def editor3_def)

section \<open>Properties of the pointer handlers\<close>

text \<open>
  C10. A pointer-down with the text tool appends one text element at the pointer's
  buffer position and paints every text element onto the canvas; the history and the
  cursor stay as they were, the gesture flag is not raised, and the pointer-up that
  follows saves nothing.
\<close>

theorem text_insert_leaves_history:
  assumes "tool (drawingState s) = Text"
  shows "history (onMouseDown tid rect e s) = history s \<and>
         historyStep (onMouseDown tid rect e s) = historyStep s \<and>
         textElements (onMouseDown tid rect e s) =
           textElements s @
             [\<lparr>te_id = tid,
               te_x = fst (getCanvasCoordinates s rect e),
               te_y = snd (getCanvasCoordinates s rect e),
               te_text = (if newText s = [] then ''Sample Text'' else newText s),
               te_color = color (drawingState s),
               te_fontSize = fontSize s,
               te_isEditing = True\<rparr>] \<and>
         (canvas s = Some c \<longrightarrow>
            canvas (onMouseDown tid rect e s) =
              Some (foldl (\<lambda>cv t. paintOn (FillText (te_color t) (te_fontSize t) (te_text t)
                                      (te_x t) (te_y t)) cv)
                      c (textElements (onMouseDown tid rect e s)))) \<and>
         isDrawing (drawingState (onMouseDown tid rect e s)) = isDrawing (drawingState s) \<and>
         (\<not> isDrawing (drawingState s) \<longrightarrow>
            stopDrawing (onMouseDown tid rect e s) = onMouseDown tid rect e s)"
  using assms
  by (simp add: onMouseDown_def startDrawing_def renderTextElements_def stopDrawing_def Let_def
      split: prod.splits option.splits)


theorem text_insert_leaves_history_witness:
  "tool (drawingState (selectTool Text editor3)) = Text \<and>
   \<not> isDrawing (drawingState (selectTool Text editor3)) \<and>
   history (onMouseDown ''1700000000000'' rect200 (pointer_at 50 50) (selectTool Text editor3)) =
     [snapA, snapB, snapC] \<and>
   historyStep (onMouseDown ''1700000000000'' rect200 (pointer_at 50 50) (selectTool Text editor3)) = 2 \<and>
   canvas (onMouseDown ''1700000000000'' rect200 (pointer_at 50 50) (selectTool Text editor3)) =
     Some \<lparr>canvas_width = 400, canvas_height = 300,
           content = Over snapC (FillText ''#ff0000'' 24 ''Sample Text'' (Num 100) (Num 100))\<rparr> \<and>
   history (stopDrawing
     (onMouseDown ''1700000000000'' rect200 (pointer_at 50 50) (selectTool Text editor3))) =
     [snapA, snapB, snapC]"
  using text_insert_leaves_history [of "selectTool Text editor3" "''1700000000000''" rect200
      "pointer_at 50 50" "\<lparr>canvas_width = 400, canvas_height = 300, content = snapC\<rparr>"]
  by (simp add: selectTool_def editor3_def editor_init_def getCanvasCoordinates_def
      rect200_def pointer_at_def paintOn_def)

text \<open>
  What a pointer-move does during a shape gesture: the canvas becomes the snapshot at the
  cursor with one shape over it, drawn from \<open>(lastX, lastY)\<close> to the pointer, and then
  \<open>(lastX, lastY)\<close> becomes the pointer position, for the shape tools as for the brush.
\<close>

lemma draw_shape_preview:
  assumes "isDrawing (drawingState s)" and "canvas s = Some c"
    and "js_index (history s) (historyStep s) = Some snap"
    and "getCanvasCoordinates s rect e = (x, y)"
  shows "lastX (drawingState (draw rect e s)) = x"
    and "lastY (drawingState (draw rect e s)) = y"
    and "tool (drawingState s) = Rectangle \<Longrightarrow>
         canvas (draw rect e s) =
           Some (c\<lparr>content := Over snap
             (StrokeRect \<lparr>strokeStyle = color (drawingState s), lineWidth = brushSize (drawingState s)\<rparr>
                (lastX (drawingState s)) (lastY (drawingState s))
                (js_sub x (lastX (drawingState s))) (js_sub y (lastY (drawingState s))))\<rparr>)"
    and "tool (drawingState s) = Circle \<Longrightarrow>
         canvas (draw rect e s) =
           Some (c\<lparr>content := Over snap
             (StrokeArc \<lparr>strokeStyle = color (drawingState s), lineWidth = brushSize (drawingState s)\<rparr>
                (lastX (drawingState s)) (lastY (drawingState s))
                (js_sqrt (js_add
                   (js_mul (js_sub x (lastX (drawingState s))) (js_sub x (lastX (drawingState s))))
                   (js_mul (js_sub y (lastY (drawingState s))) (js_sub y (lastY (drawingState s))))))
                0 (2 * pi))\<rparr>)"
    and "tool (drawingState s) = Arrow \<Longrightarrow>
         canvas (draw rect e s) =
           Some (drawArrow \<lparr>strokeStyle = color (drawingState s), lineWidth = brushSize (drawingState s)\<rparr>
                   (lastX (drawingState s)) (lastY (drawingState s)) x y
                   (c\<lparr>content := snap\<rparr>))"
  using assms
  by (simp_all add: draw_def preview_def drawImage_def clearRect_def paintOn_def Let_def)

text \<open>
  C1 asks that every preview be drawn from the pointer-down position. The canvas is
  indeed restored to the snapshot at the cursor on every move, but the start point is
  overwritten by each move: with the rectangle tool, a pointer-down at buffer point
  (10, 10) and moves to (20, 20) and (30, 40), the second preview is the rectangle from
  (20, 20) to (30, 40), not the one from (10, 10) to (30, 40).
\<close>

theorem shape_preview_start_point_lost:
  "lastX (drawingState (onMouseDown [] rect200 (pointer_at 5 5) (selectTool Rectangle editor3))) = Num 10 \<and>
   lastY (drawingState (onMouseDown [] rect200 (pointer_at 5 5) (selectTool Rectangle editor3))) = Num 10 \<and>
   canvas (draw rect200 (pointer_at 10 10)
      (onMouseDown [] rect200 (pointer_at 5 5) (selectTool Rectangle editor3))) =
     Some \<lparr>canvas_width = 400, canvas_height = 300,
           content = Over snapC (StrokeRect \<lparr>strokeStyle = ''#ff0000'', lineWidth = 5\<rparr>
                       (Num 10) (Num 10) (Num 10) (Num 10))\<rparr> \<and>
   canvas (draw rect200 (pointer_at 15 20) (draw rect200 (pointer_at 10 10)
      (onMouseDown [] rect200 (pointer_at 5 5) (selectTool Rectangle editor3)))) =
     Some \<lparr>canvas_width = 400, canvas_height = 300,
           content = Over snapC (StrokeRect \<lparr>strokeStyle = ''#ff0000'', lineWidth = 5\<rparr>
                       (Num 20) (Num 20) (Num 10) (Num 20))\<rparr> \<and>
   canvas (draw rect200 (pointer_at 15 20) (draw rect200 (pointer_at 10 10)
      (onMouseDown [] rect200 (pointer_at 5 5) (selectTool Rectangle editor3)))) \<noteq>
     Some \<lparr>canvas_width = 400, canvas_height = 300,
           content = Over snapC (StrokeRect \<lparr>strokeStyle = ''#ff0000'', lineWidth = 5\<rparr>
                       (Num 10) (Num 10) (Num 20) (Num 30))\<rparr>"
  by (simp add: onMouseDown_def startDrawing_def draw_def selectTool_def preview_def
      getCanvasCoordinates_def editor3_def editor_init_def rect200_def pointer_at_def
      paintOn_def drawImage_def clearRect_def js_index_def Let_def)

end
